theory Spec2Isabelle
  imports Main
begin

section \<open>Dynamic values, panics and errors\<close>

text \<open>
  The session package stores values of Go's empty interface type. The dynamic values
  modelled here are the nil interface, booleans, integers, strings and slices of
  interface values (the type \<^verbatim>\<open>[]interface{}\<close> that holds the flash messages).
  A nil slice and an empty slice are both the empty list.
\<close>

datatype val = VNil | VBool bool | VInt int | VStr string | VSlice "val list"

text \<open>
  A Go map key must be comparable: hashing a slice held in an interface panics at run
  time. All other modelled values can be hashed.
\<close>

fun hashable :: "val \<Rightarrow> bool" where
  "hashable (VSlice xs) = False"
| "hashable v = True"

text \<open>The run-time panics that the code of the package can raise.\<close>

datatype panic =
    AssignNilMap          \<comment> \<open>assignment to entry in nil map\<close>
  | UnhashableKey         \<comment> \<open>hash of unhashable type\<close>
  | InterfaceConversion   \<comment> \<open>failed type assertion \<^verbatim>\<open>v.([]interface{})\<close>\<close>
  | NilDereference        \<comment> \<open>nil pointer or nil interface dereference\<close>

text \<open>
  An \<^verbatim>\<open>error\<close> is either an opaque error with its message (what \<^verbatim>\<open>fmt.Errorf\<close>
  or a store produces) or a \<^verbatim>\<open>MultiError\<close>, a slice of errors whose slots may be nil.
\<close>

datatype error = ErrorString string | MultiError "error option list"

subsection \<open>Go maps from interface values to interface values\<close>

text \<open>
  A map value is \<open>None\<close> when it is the nil map. Reading and deleting work on a nil
  map, writing panics. Every access hashes the key first, except that writing to a nil
  map panics before the key is hashed.
\<close>

type_synonym gomap = "(val \<rightharpoonup> val) option"

definition map_index :: "gomap \<Rightarrow> val \<Rightarrow> panic + val option" where
  "map_index m k =
     (if \<not> hashable k then Inl UnhashableKey
      else Inr (case m of None \<Rightarrow> None | Some f \<Rightarrow> f k))"

definition map_assign :: "gomap \<Rightarrow> val \<Rightarrow> val \<Rightarrow> panic + gomap" where
  "map_assign m k v =
     (case m of
        None \<Rightarrow> Inl AssignNilMap
      | Some f \<Rightarrow> if \<not> hashable k then Inl UnhashableKey else Inr (Some (f(k \<mapsto> v))))"

definition map_delete :: "gomap \<Rightarrow> val \<Rightarrow> panic + gomap" where
  "map_delete m k =
     (if \<not> hashable k then Inl UnhashableKey
      else Inr (case m of None \<Rightarrow> None | Some f \<Rightarrow> Some (f(k := None))))"

section \<open>Options and Session\<close>

record Options =
  Path :: string
  Domain :: string
  MaxAge :: int
  Secure :: bool
  HttpOnly :: bool

text \<open>
  The field \<open>store\<close> holds a \<^verbatim>\<open>Store\<close> interface value: \<open>None\<close> is the nil
  interface, \<open>Some i\<close> is the store with identity \<open>i\<close>.
\<close>

record Session =
  ID :: string
  Values :: gomap
  Options :: "Options option"
  IsNew :: bool
  store :: "nat option"
  name :: string
  dirty :: bool

definition flashesKey :: string where
  "flashesKey = ''_flash''"

definition NewSession :: "nat option \<Rightarrow> string \<Rightarrow> Session" where
  "NewSession st nm =
     \<lparr>ID = [], Values = Some Map.empty, Options = None, IsNew = False,
      store = st, name = nm, dirty = False\<rparr>"

text \<open>
  The variadic argument \<^verbatim>\<open>vars ...string\<close> is the list of the strings passed; the flash
  key is its first element, or the default key when none is passed.
\<close>

definition flash_key :: "string list \<Rightarrow> val" where
  "flash_key vars = VStr (case vars of [] \<Rightarrow> flashesKey | k # _ \<Rightarrow> k)"

text \<open>
  \<^verbatim>\<open>Flashes\<close> returns the flashes and the session after the call. The key is deleted
  before the type assertion is evaluated.
\<close>

definition Flashes :: "Session \<Rightarrow> string list \<Rightarrow> panic + (val list \<times> Session)" where
  "Flashes sess vars =
     (let key = flash_key vars in
      case map_index (Values sess) key of
        Inl p \<Rightarrow> Inl p
      | Inr None \<Rightarrow> Inr ([], sess)
      | Inr (Some v) \<Rightarrow>
          (case map_delete (Values sess) key of
             Inl p \<Rightarrow> Inl p
           | Inr m' \<Rightarrow>
               (case v of
                  VSlice fl \<Rightarrow> Inr (fl, sess\<lparr>Values := m'\<rparr>)
                | _ \<Rightarrow> Inl InterfaceConversion)))"

definition AddFlash :: "Session \<Rightarrow> val \<Rightarrow> string list \<Rightarrow> panic + Session" where
  "AddFlash sess value vars =
     (let key = flash_key vars in
      case map_index (Values sess) key of
        Inl p \<Rightarrow> Inl p
      | Inr r \<Rightarrow>
          (case (case r of
                   None \<Rightarrow> Inr []
                 | Some v \<Rightarrow> (case v of VSlice fl \<Rightarrow> Inr fl | _ \<Rightarrow> Inl InterfaceConversion)) of
             Inl p \<Rightarrow> Inl p
           | Inr flashes \<Rightarrow>
               (case map_assign (Values sess) key (VSlice (flashes @ [value])) of
                  Inl p \<Rightarrow> Inl p
                | Inr m' \<Rightarrow> Inr (sess\<lparr>Values := m'\<rparr>))))"

definition Name :: "Session \<Rightarrow> string" where
  "Name sess = name sess"

definition Store :: "Session \<Rightarrow> nat option" where
  "Store sess = store sess"


definition Set :: "Session \<Rightarrow> val \<Rightarrow> val \<Rightarrow> panic + Session" where
  "Set sess key v =
     (case map_assign (Values sess) key v of
        Inl p \<Rightarrow> Inl p
      | Inr m' \<Rightarrow> Inr (sess\<lparr>Values := m', dirty := True\<rparr>))"

definition Delete :: "Session \<Rightarrow> val \<Rightarrow> panic + Session" where
  "Delete sess key =
     (case map_delete (Values sess) key of
        Inl p \<Rightarrow> Inl p
      | Inr m' \<Rightarrow> Inr (sess\<lparr>Values := m', dirty := True\<rparr>))"

section \<open>Rendering errors\<close>

definition digit_char :: "nat \<Rightarrow> char" where
  "digit_char d = ''0123456789'' ! d"

text \<open>The verb \<^verbatim>\<open>%d\<close> on a non-negative count.\<close>

function fmt_d :: "nat \<Rightarrow> string" where
  "fmt_d n = (if n < 10 then [digit_char n] else fmt_d (n div 10) @ [digit_char (n mod 10)])"
  by pat_completeness auto
termination
  by (relation "measure (\<lambda>n. n)") auto

text \<open>
  \<open>Error_range\<close> is the loop of \<^verbatim>\<open>MultiError.Error\<close> over the slots, on the pair of
  the locals \<^verbatim>\<open>s\<close> and \<^verbatim>\<open>n\<close>. The count \<^verbatim>\<open>n\<close> is bounded by the length of a slice
  and cannot overflow.
\<close>

function Error :: "error \<Rightarrow> string"
  and Error_range :: "error option list \<Rightarrow> string \<times> nat \<Rightarrow> string \<times> nat" where
  "Error (ErrorString msg) = msg"
| "Error (MultiError m) =
     (let (s, n) = Error_range m ([], 0) in
      if n = 0 then ''(0 errors)''
      else if n = 1 then s
      else if n = 2 then s @ '' (and 1 other error)''
      else s @ '' (and '' @ fmt_d (n - 1) @ '' other errors)'')"
| "Error_range [] acc = acc"
| "Error_range (None # m) (s, n) = Error_range m (s, n)"
| "Error_range (Some e # m) (s, n) = Error_range m (if n = 0 then Error e else s, Suc n)"
  by pat_completeness auto
termination
  by (relation "measure (\<lambda>x. case x of Inl e \<Rightarrow> size e
          | Inr (m, _) \<Rightarrow> size_list (size_option size) m)") auto

text \<open>The non-nil components of a multi-error, in order.\<close>

fun non_nil :: "error option list \<Rightarrow> error list" where
  "non_nil [] = []"
| "non_nil (None # m) = non_nil m"
| "non_nil (Some e # m) = e # non_nil m"

section \<open>Stores, the heap and the registry\<close>

text \<open>
  The \<^verbatim>\<open>Store\<close> interface and its implementations are not part of the file; a store
  is a parameter. A store implementation acts on the state outside the package (the
  request context and the store's own contents, of type \<open>'e\<close>). \<open>New_impl\<close> returns a
  newly allocated session (\<open>None\<close> for a nil pointer) and an error (\<open>None\<close> for nil);
  \<open>Save_impl\<close> reads the session and returns an error together with the session's
  exported fields after the call. The unexported fields \<open>store\<close>, \<open>name\<close> and \<open>dirty\<close>
  are written by this package only.
\<close>

record 'e StoreImpl =
  New_impl :: "string \<Rightarrow> 'e \<Rightarrow> Session option \<times> error option \<times> 'e"
  Save_impl :: "Session \<Rightarrow> 'e \<Rightarrow> error option \<times> Session \<times> 'e"

text \<open>The calls made to stores, in order; a call of \<^verbatim>\<open>Save\<close> is logged with its result.\<close>

datatype call = NewCall nat string | SaveCall nat nat "error option"

text \<open>
  Sessions are shared through pointers: the heap is the list of the allocated sessions,
  an address is an index into it, and a pointer is \<open>None\<close> when nil.
\<close>

record 'e world =
  heap :: "Session list"
  calls :: "call list"
  ext :: 'e

definition deref :: "Session list \<Rightarrow> nat option \<Rightarrow> panic + (nat \<times> Session)" where
  "deref h p =
     (case p of
        None \<Rightarrow> Inl NilDereference
      | Some a \<Rightarrow> if a < length h then Inr (a, h ! a) else Inl NilDereference)"


text \<open>\<^verbatim>\<open>store.New(s.context, name)\<close>; calling a method of the nil interface panics.\<close>

definition call_New ::
  "(nat \<Rightarrow> 'e StoreImpl) \<Rightarrow> nat option \<Rightarrow> string \<Rightarrow> 'e world
     \<Rightarrow> panic + ((nat option \<times> error option) \<times> 'e world)" where
  "call_New env st nm w =
     (case st of
        None \<Rightarrow> Inl NilDereference
      | Some sid \<Rightarrow>
          (case New_impl (env sid) nm (ext w) of
             (r, err, x') \<Rightarrow>
               (let w1 = w\<lparr>calls := calls w @ [NewCall sid nm], ext := x'\<rparr> in
                case r of
                  None \<Rightarrow> Inr ((None, err), w1)
                | Some fresh \<Rightarrow>
                    Inr ((Some (length (heap w1)), err), w1\<lparr>heap := heap w1 @ [fresh]\<rparr>))))"



record sessionInfo =
  info_s :: "nat option"
  info_e :: "error option"

text \<open>
  The registry's \<^verbatim>\<open>context\<close> is part of the outside state; its \<^verbatim>\<open>sessions\<close> map is
  made by \<^verbatim>\<open>GetRegistry\<close> and is never nil.
\<close>

record Registry =
  sessions :: "string \<rightharpoonup> sessionInfo"

definition Registry_Get ::
  "(nat \<Rightarrow> 'e StoreImpl) \<Rightarrow> Registry \<Rightarrow> nat option \<Rightarrow> string \<Rightarrow> 'e world
     \<Rightarrow> panic + ((nat option \<times> error option) \<times> Registry \<times> 'e world)" where
  "Registry_Get env reg st nm w =
     (case (case sessions reg nm of
              Some info \<Rightarrow> Inr (info_s info, info_e info, reg, w)
            | None \<Rightarrow>
                (case call_New env st nm w of
                   Inl pn \<Rightarrow> Inl pn
                 | Inr ((session, err), w1) \<Rightarrow>
                     (case deref (heap w1) session of
                        Inl pn \<Rightarrow> Inl pn
                      | Inr (a, sess) \<Rightarrow>
                          Inr (session, err,
                               reg\<lparr>sessions := (sessions reg)(nm \<mapsto> \<lparr>info_s = session, info_e = err\<rparr>)\<rparr>,
                               w1\<lparr>heap := (heap w1)[a := sess\<lparr>name := nm\<rparr>]\<rparr>)))) of
        Inl pn \<Rightarrow> Inl pn
      | Inr (session, err, reg', w') \<Rightarrow>
          (case deref (heap w') session of
             Inl pn \<Rightarrow> Inl pn
           | Inr (a, sess) \<Rightarrow>
               Inr ((session, err), reg', w'\<lparr>heap := (heap w')[a := sess\<lparr>store := st\<rparr>]\<rparr>)))"






text \<open>What a session stores under a key: \<open>None\<close> when the key is absent or the map is nil.\<close>

definition stored :: "Session \<Rightarrow> val \<Rightarrow> val option" where
  "stored sess k = (case Values sess of None \<Rightarrow> None | Some f \<Rightarrow> f k)"

text \<open>The type assertion \<^verbatim>\<open>v.([]interface{})\<close> succeeds on slices of interface values only.\<close>

fun is_slice :: "val \<Rightarrow> bool" where
  "is_slice (VSlice xs) = True"
| "is_slice v = False"

text \<open>The number of calls of \<^verbatim>\<open>New\<close>, on any store, for a name.\<close>

fun is_New_of :: "string \<Rightarrow> call \<Rightarrow> bool" where
  "is_New_of nm (NewCall sid n) = (n = nm)"
| "is_New_of nm (SaveCall sid a r) = False"

definition New_count :: "string \<Rightarrow> call list \<Rightarrow> nat" where
  "New_count nm cs = length (filter (is_New_of nm) cs)"

subsection \<open>Example stores\<close>

text \<open>
  Two stores on which the model is evaluated: one whose \<^verbatim>\<open>New\<close> and \<^verbatim>\<open>Save\<close> always
  report an error (and still hand out a usable session), one that always succeeds.
  Store 0 is the failing one, every other store succeeds.
\<close>

definition failing_store :: "unit StoreImpl" where
  "failing_store =
     \<lparr>New_impl = (\<lambda>nm x. (Some (NewSession None nm), Some (ErrorString ''cannot decode''), x)),
      Save_impl = (\<lambda>sess x. (Some (ErrorString ''disk full''), sess, x))\<rparr>"

definition memory_store :: "unit StoreImpl" where
  "memory_store =
     \<lparr>New_impl = (\<lambda>nm x. (Some (NewSession None nm), None, x)),
      Save_impl = (\<lambda>sess x. (None, sess, x))\<rparr>"

definition example_env :: "nat \<Rightarrow> unit StoreImpl" where
  "example_env sid = (if sid = 0 then failing_store else memory_store)"

text \<open>The registry that \<^verbatim>\<open>GetRegistry\<close> makes for a request, and a world with no session.\<close>

definition empty_Registry :: Registry where
  "empty_Registry = \<lparr>sessions = Map.empty\<rparr>"

definition empty_world :: "unit world" where
  "empty_world = \<lparr>heap = [], calls = [], ext = ()\<rparr>"


subsection \<open>What a pass of \<^verbatim>\<open>Registry.Save\<close> produces\<close>





subsection \<open>Example registries\<close>







section \<open>Rendering a multi-error\<close>

lemma Error_range_non_nil:
  "Error_range m (s, n) =
     (if n = 0 then (case non_nil m of [] \<Rightarrow> s | e # _ \<Rightarrow> Error e) else s, n + length (non_nil m))"
proof (induction m arbitrary: s n)
  case Nil
  then show ?case by (simp split: list.splits)
next
  case (Cons x m)
  show ?case
  proof (cases x)
    case None
    then show ?thesis using Cons.IH by simp
  next
    case (Some e)
    then show ?thesis using Cons.IH by (simp split: list.splits)
  qed
qed

lemma Error_MultiError_count:
  "Error (MultiError m) =
     (let s = (case non_nil m of [] \<Rightarrow> [] | e # _ \<Rightarrow> Error e); n = length (non_nil m) in
      if n = 0 then ''(0 errors)''
      else if n = 1 then s
      else if n = 2 then s @ '' (and 1 other error)''
      else s @ '' (and '' @ fmt_d (n - 1) @ '' other errors)'')"
  unfolding Error.simps Error_range_non_nil by (simp add: Let_def)

lemma fmt_d_examples: "fmt_d 2 = ''2'' \<and> fmt_d 10 = ''10'' \<and> fmt_d 407 = ''407''"
  by (simp add: digit_char_def)

text \<open>
  Claim C3. Rendering a multi-error skips the nil slots. With no non-nil component the
  message is \<open>(0 errors)\<close>; with exactly one it is that component's message; with exactly
  two it is the first message followed by \<open>(and 1 other error)\<close>; with \<open>N\<close> of them,
  \<open>N\<close> at least three, it is the first message followed by \<open>(and N-1 other errors)\<close>,
  the number in decimal.
\<close>

theorem MultiError_Error_rendering:
  "(non_nil m = [] \<longrightarrow> Error (MultiError m) = ''(0 errors)'') \<and>
   (length (non_nil m) = 1 \<longrightarrow> Error (MultiError m) = Error (hd (non_nil m))) \<and>
   (length (non_nil m) = 2 \<longrightarrow>
      Error (MultiError m) = Error (hd (non_nil m)) @ '' (and 1 other error)'') \<and>
   (3 \<le> length (non_nil m) \<longrightarrow>
      Error (MultiError m) =
        Error (hd (non_nil m)) @ '' (and '' @ fmt_d (length (non_nil m) - 1) @ '' other errors)'')"
proof (cases "non_nil m")
  case Nil
  then show ?thesis unfolding Error_MultiError_count by simp
next
  case (Cons e es)
  then show ?thesis unfolding Error_MultiError_count by (simp add: Let_def)
qed

theorem MultiError_Error_rendering_witness:
  "Error (MultiError [None]) = ''(0 errors)'' \<and>
   Error (MultiError [None, Some (ErrorString ''a''), None]) = ''a'' \<and>
   Error (MultiError [Some (ErrorString ''a''), None, Some (ErrorString ''b'')]) =
     ''a (and 1 other error)'' \<and>
   Error (MultiError [None, Some (ErrorString ''a''), Some (ErrorString ''b''),
                      Some (MultiError []), Some (ErrorString ''c'')]) =
     ''a (and 3 other errors)''"
  using MultiError_Error_rendering [of "[None]"]
    MultiError_Error_rendering [of "[None, Some (ErrorString ''a''), None]"]
    MultiError_Error_rendering [of "[Some (ErrorString ''a''), None, Some (ErrorString ''b'')]"]
    MultiError_Error_rendering [of "[None, Some (ErrorString ''a''), Some (ErrorString ''b''),
                      Some (MultiError []), Some (ErrorString ''c'')]"]
  by (simp add: digit_char_def)

section \<open>Session methods\<close>

text \<open>When each method returns, and the session it leaves.\<close>

lemma hashable_flash_key [simp]: "hashable (flash_key vars)"
  by (simp add: flash_key_def)

lemma Set_returns:
  "Set sess k v = Inr s1 \<longleftrightarrow>
     (\<exists>f. Values sess = Some f \<and> hashable k \<and> s1 = sess\<lparr>Values := Some (f(k \<mapsto> v)), dirty := True\<rparr>)"
  by (auto simp: Set_def map_assign_def split: option.splits)

lemma Delete_returns:
  "Delete sess k = Inr s1 \<longleftrightarrow>
     (hashable k \<and>
      s1 = sess\<lparr>Values := (case Values sess of None \<Rightarrow> None | Some f \<Rightarrow> Some (f(k := None))),
                dirty := True\<rparr>)"
  by (auto simp: Delete_def map_delete_def)






subsection \<open>The dirty flag\<close>

lemma Set_marks_dirty: "Set sess k v = Inr s1 \<Longrightarrow> dirty s1"
  by (auto simp: Set_returns)

lemma Delete_marks_dirty: "Delete sess k = Inr s1 \<Longrightarrow> dirty s1"
  by (auto simp: Delete_returns)



text \<open>
  Claim C4. \<^verbatim>\<open>Set\<close> and \<^verbatim>\<open>Delete\<close> set the dirty flag (lemmas \<open>Set_marks_dirty\<close> and
  \<open>Delete_marks_dirty\<close>) and \<^verbatim>\<open>Get\<close> returns the session as it was (\<open>Get_returns\<close>),
  but \<^verbatim>\<open>AddFlash\<close> never writes the flag: on a session made by \<^verbatim>\<open>NewSession\<close>,
  \<^verbatim>\<open>AddFlash("saved")\<close> stores the flash and leaves the dirty flag false.
\<close>

theorem AddFlash_leaves_dirty_false:
  "AddFlash (NewSession (Some 0) ''session'') (VStr ''saved'') [] =
     Inr ((NewSession (Some 0) ''session'')\<lparr>Values := Some [VStr ''_flash'' \<mapsto> VSlice [VStr ''saved'']]\<rparr>) \<and>
   dirty ((NewSession (Some 0) ''session'')\<lparr>Values := Some [VStr ''_flash'' \<mapsto> VSlice [VStr ''saved'']]\<rparr>) = False"
  by (simp add: AddFlash_def map_index_def map_assign_def flash_key_def flashesKey_def
      NewSession_def)

text \<open>
  Claim C5. \<^verbatim>\<open>Flashes\<close> never writes the dirty flag either: on a session made by
  \<^verbatim>\<open>NewSession\<close>, after \<^verbatim>\<open>AddFlash("saved")\<close> the call \<^verbatim>\<open>Flashes()\<close> returns the
  flash, removes it from the values, and leaves the dirty flag false.
\<close>

theorem Flashes_leaves_dirty_false:
  "AddFlash (NewSession (Some 0) ''session'') (VStr ''saved'') [] =
     Inr ((NewSession (Some 0) ''session'')\<lparr>Values := Some [VStr ''_flash'' \<mapsto> VSlice [VStr ''saved'']]\<rparr>) \<and>
   Flashes ((NewSession (Some 0) ''session'')\<lparr>Values := Some [VStr ''_flash'' \<mapsto> VSlice [VStr ''saved'']]\<rparr>) [] =
     Inr ([VStr ''saved''], NewSession (Some 0) ''session'') \<and>
   dirty (NewSession (Some 0) ''session'') = False"
  by (simp add: AddFlash_def Flashes_def map_index_def map_assign_def map_delete_def
      flash_key_def flashesKey_def NewSession_def)

subsection \<open>Flashes\<close>




text \<open>
  Claim C10. \<^verbatim>\<open>Flashes\<close> and \<^verbatim>\<open>AddFlash\<close> assert without a check that the value stored
  under the flash key is a slice of interface values. After \<^verbatim>\<open>Set\<close> has stored a value
  that is not such a slice under the key (the default key or a custom one), both calls
  panic with a failed type assertion. \<^verbatim>\<open>Flashes\<close> returns exactly when the key is
  absent or holds a slice; \<^verbatim>\<open>AddFlash\<close> returns exactly when, in addition, the map of
  values is not nil.
\<close>

theorem flash_type_assertion:
  "(Set sess (flash_key vars) v = Inr s1 \<and> \<not> is_slice v \<longrightarrow>
      Flashes s1 vars = Inl InterfaceConversion \<and> AddFlash s1 x vars = Inl InterfaceConversion) \<and>
   ((\<exists>r. Flashes sess vars = Inr r) \<longleftrightarrow>
      (case stored sess (flash_key vars) of None \<Rightarrow> True | Some old \<Rightarrow> is_slice old)) \<and>
   ((\<exists>r. AddFlash sess x vars = Inr r) \<longleftrightarrow>
      Values sess \<noteq> None \<and>
      (case stored sess (flash_key vars) of None \<Rightarrow> True | Some old \<Rightarrow> is_slice old))"
proof (intro conjI impI)
  assume h: "Set sess (flash_key vars) v = Inr s1 \<and> \<not> is_slice v"
  then obtain f where s1: "s1 = sess\<lparr>Values := Some (f(flash_key vars \<mapsto> v)), dirty := True\<rparr>"
    by (auto simp: Set_returns)
  from h have nv: "\<not> is_slice v" by simp
  show "Flashes s1 vars = Inl InterfaceConversion"
    using nv by (cases v) (simp_all add: s1 Flashes_def map_index_def map_delete_def)
  show "AddFlash s1 x vars = Inl InterfaceConversion"
    using nv by (cases v) (simp_all add: s1 AddFlash_def map_index_def)
next
  show "(\<exists>r. Flashes sess vars = Inr r) \<longleftrightarrow>
      (case stored sess (flash_key vars) of None \<Rightarrow> True | Some old \<Rightarrow> is_slice old)"
  proof (cases "stored sess (flash_key vars)")
    case None
    then show ?thesis by (simp add: Flashes_def map_index_def stored_def split: option.splits)
  next
    case (Some old)
    then show ?thesis
      by (cases old) (auto simp: Flashes_def map_index_def map_delete_def stored_def split: option.splits)
  qed
next
  show "(\<exists>r. AddFlash sess x vars = Inr r) \<longleftrightarrow>
      Values sess \<noteq> None \<and>
      (case stored sess (flash_key vars) of None \<Rightarrow> True | Some old \<Rightarrow> is_slice old)"
  proof (cases "stored sess (flash_key vars)")
    case None
    then show ?thesis
      by (auto simp: AddFlash_def map_index_def map_assign_def stored_def split: option.splits)
  next
    case (Some old)
    then show ?thesis
      by (cases old) (auto simp: AddFlash_def map_index_def map_assign_def stored_def split: option.splits)
  qed
qed

theorem flash_type_assertion_witness:
  "Set (NewSession None ''n'') (flash_key []) (VStr ''oops'') =
     Inr ((NewSession None ''n'')\<lparr>Values := Some [VStr ''_flash'' \<mapsto> VStr ''oops''], dirty := True\<rparr>) \<and>
   \<not> is_slice (VStr ''oops'') \<and>
   Flashes ((NewSession None ''n'')\<lparr>Values := Some [VStr ''_flash'' \<mapsto> VStr ''oops''], dirty := True\<rparr>) [] =
     Inl InterfaceConversion \<and>
   AddFlash ((NewSession None ''n'')\<lparr>Values := Some [VStr ''_flash'' \<mapsto> VStr ''oops''], dirty := True\<rparr>)
     (VStr ''hello'') [] = Inl InterfaceConversion"
proof -
  let ?s0 = "NewSession None ''n''"
  let ?s1 = "?s0\<lparr>Values := Some [VStr ''_flash'' \<mapsto> VStr ''oops''], dirty := True\<rparr>"
  have a: "Set ?s0 (flash_key []) (VStr ''oops'') = Inr ?s1"
    by (simp add: Set_def map_assign_def NewSession_def flash_key_def flashesKey_def)
  have b: "\<not> is_slice (VStr ''oops'')" by simp
  from a b flash_type_assertion [where sess = ?s0 and vars = "[]" and v = "VStr ''oops''"
      and ?s1.0 = ?s1 and x = "VStr ''hello''"]
  show ?thesis by simp
qed

section \<open>The registry\<close>

lemma Registry_Get_hit:
  "sessions reg nm = Some info \<Longrightarrow>
   Registry_Get env reg st nm w =
     (case deref (heap w) (info_s info) of
        Inl pn \<Rightarrow> Inl pn
      | Inr (a, sess) \<Rightarrow>
          Inr ((info_s info, info_e info), reg, w\<lparr>heap := (heap w)[a := sess\<lparr>store := st\<rparr>]\<rparr>))"
  by (simp add: Registry_Get_def split: sum.splits)

lemma Registry_Get_miss:
  "sessions reg nm = None \<Longrightarrow>
   Registry_Get env reg st nm w = Inr (r, reg1, w1) \<longleftrightarrow>
     (\<exists>sid fresh err x'. st = Some sid \<and> New_impl (env sid) nm (ext w) = (Some fresh, err, x') \<and>
        r = (Some (length (heap w)), err) \<and>
        reg1 = reg\<lparr>sessions := (sessions reg)(nm \<mapsto> \<lparr>info_s = Some (length (heap w)), info_e = err\<rparr>)\<rparr> \<and>
        w1 = \<lparr>heap = heap w @ [fresh\<lparr>name := nm, store := st\<rparr>],
              calls = calls w @ [NewCall sid nm], ext = x'\<rparr>)"
  by (cases w) (auto simp: Registry_Get_def call_New_def deref_def Let_def
      split: option.splits prod.splits sum.splits)

text \<open>
  Claim C1. Whenever a call of \<^verbatim>\<open>Registry.Get\<close> for a name returns, a second call for the
  same name, with any store, returns the identical session pointer and the identical
  creation error, leaves the registry as it is, and calls no store. Over the two calls
  \<^verbatim>\<open>New\<close> is called exactly once for the name when the name was not tracked before the
  first call, also when that call of \<^verbatim>\<open>New\<close> reported an error, and not at all when the
  name was tracked already.
\<close>

theorem Registry_Get_repeated:
  assumes "Registry_Get env reg st nm w = Inr (r, reg1, w1)"
  shows "\<exists>w2. Registry_Get env reg1 st2 nm w1 = Inr (r, reg1, w2) \<and>
           calls w2 = calls w1 \<and> ext w2 = ext w1 \<and>
           New_count nm (calls w2) =
             New_count nm (calls w) + (if sessions reg nm = None then 1 else 0) \<and>
           (sessions reg nm = None \<longrightarrow>
              (\<exists>sid. st = Some sid \<and> calls w1 = calls w @ [NewCall sid nm])) \<and>
           (sessions reg nm \<noteq> None \<longrightarrow> calls w1 = calls w)"
proof (cases "sessions reg nm")
  case None
  from assms obtain sid fresh err x' where st: "st = Some sid"
    and r: "r = (Some (length (heap w)), err)"
    and reg1: "reg1 = reg\<lparr>sessions := (sessions reg)(nm \<mapsto> \<lparr>info_s = Some (length (heap w)), info_e = err\<rparr>)\<rparr>"
    and w1: "w1 = \<lparr>heap = heap w @ [fresh\<lparr>name := nm, store := st\<rparr>],
              calls = calls w @ [NewCall sid nm], ext = x'\<rparr>"
    unfolding Registry_Get_miss [OF None] by blast
  have hit: "sessions reg1 nm = Some \<lparr>info_s = Some (length (heap w)), info_e = err\<rparr>"
    by (simp add: reg1)
  show ?thesis
    unfolding Registry_Get_hit [OF hit]
    by (simp add: deref_def w1 r None st New_count_def)
next
  case (Some info)
  from assms obtain a where a: "info_s info = Some a" "a < length (heap w)"
    and r: "r = (info_s info, info_e info)" and reg1: "reg1 = reg"
    and w1: "w1 = w\<lparr>heap := (heap w)[a := (heap w ! a)\<lparr>store := st\<rparr>]\<rparr>"
    unfolding Registry_Get_hit [OF Some]
    by (auto simp: deref_def split: option.splits if_splits)
  show ?thesis
    unfolding reg1 Registry_Get_hit [OF Some]
    by (simp add: deref_def a r w1 Some)
qed


theorem Registry_Get_repeated_witness:
  "Registry_Get example_env empty_Registry (Some 0) ''s'' empty_world =
     Inr ((Some 0, Some (ErrorString ''cannot decode'')),
          \<lparr>sessions = [''s'' \<mapsto> \<lparr>info_s = Some 0, info_e = Some (ErrorString ''cannot decode'')\<rparr>]\<rparr>,
          \<lparr>heap = [(NewSession None ''s'')\<lparr>name := ''s'', store := Some 0\<rparr>],
           calls = [NewCall 0 ''s''], ext = ()\<rparr>) \<and>
   (\<exists>w2. Registry_Get example_env
            \<lparr>sessions = [''s'' \<mapsto> \<lparr>info_s = Some 0, info_e = Some (ErrorString ''cannot decode'')\<rparr>]\<rparr>
            (Some 1) ''s''
            \<lparr>heap = [(NewSession None ''s'')\<lparr>name := ''s'', store := Some 0\<rparr>],
             calls = [NewCall 0 ''s''], ext = ()\<rparr> =
          Inr ((Some 0, Some (ErrorString ''cannot decode'')),
               \<lparr>sessions = [''s'' \<mapsto> \<lparr>info_s = Some 0, info_e = Some (ErrorString ''cannot decode'')\<rparr>]\<rparr>,
               w2) \<and>
          calls w2 = [NewCall 0 ''s''] \<and> New_count ''s'' (calls w2) = 1)"
proof -
  have a: "Registry_Get example_env empty_Registry (Some 0) ''s'' empty_world =
     Inr ((Some 0, Some (ErrorString ''cannot decode'')),
          \<lparr>sessions = [''s'' \<mapsto> \<lparr>info_s = Some 0, info_e = Some (ErrorString ''cannot decode'')\<rparr>]\<rparr>,
          \<lparr>heap = [(NewSession None ''s'')\<lparr>name := ''s'', store := Some 0\<rparr>],
           calls = [NewCall 0 ''s''], ext = ()\<rparr>)"
    by (simp add: Registry_Get_def call_New_def deref_def example_env_def failing_store_def
        empty_Registry_def empty_world_def)
  have b: "sessions empty_Registry ''s'' = None" "calls empty_world = []"
    by (simp_all add: empty_Registry_def empty_world_def)
  from a b Registry_Get_repeated [OF a, of "Some 1"]
  show ?thesis by (simp add: New_count_def)
qed

text \<open>
  Claim C8. \<^verbatim>\<open>Registry.Get\<close> for a tracked name returns the tracked pointer and error
  and leaves the registry, the store calls and the outside state as they are. In the
  heap it writes the store passed to the call into the \<open>store\<close> field of the tracked
  session and nothing else: the values and every other field of that session, and all
  other sessions, are unchanged.
\<close>

theorem Registry_Get_rebinds_store:
  assumes "sessions reg nm = Some info" and "info_s info = Some a" and "a < length (heap w)"
  shows "\<exists>w1. Registry_Get env reg st nm w = Inr ((Some a, info_e info), reg, w1) \<and>
           length (heap w1) = length (heap w) \<and>
           store (heap w1 ! a) = st \<and>
           Values (heap w1 ! a) = Values (heap w ! a) \<and>
           heap w1 ! a = (heap w ! a)\<lparr>store := st\<rparr> \<and>
           (\<forall>b. b < length (heap w) \<and> b \<noteq> a \<longrightarrow> heap w1 ! b = heap w ! b) \<and>
           calls w1 = calls w \<and> ext w1 = ext w"
  unfolding Registry_Get_hit [OF assms(1)] using assms(2,3)
  by (simp add: deref_def)

theorem Registry_Get_rebinds_store_witness:
  "sessions \<lparr>sessions = [''s'' \<mapsto> \<lparr>info_s = Some 0, info_e = None\<rparr>]\<rparr> ''s'' =
     Some \<lparr>info_s = Some 0, info_e = None\<rparr> \<and>
   (\<exists>w1. Registry_Get example_env \<lparr>sessions = [''s'' \<mapsto> \<lparr>info_s = Some 0, info_e = None\<rparr>]\<rparr>
            (Some 2) ''s''
            \<lparr>heap = [(NewSession (Some 1) ''s'')\<lparr>Values := Some [VStr ''user'' \<mapsto> VInt 7]\<rparr>],
             calls = [NewCall 1 ''s''], ext = ()\<rparr> =
          Inr ((Some 0, None), \<lparr>sessions = [''s'' \<mapsto> \<lparr>info_s = Some 0, info_e = None\<rparr>]\<rparr>, w1) \<and>
        heap w1 ! 0 = (NewSession (Some 2) ''s'')\<lparr>Values := Some [VStr ''user'' \<mapsto> VInt 7]\<rparr> \<and>
        calls w1 = [NewCall 1 ''s''])"
proof -
  let ?reg = "\<lparr>sessions = [''s'' \<mapsto> \<lparr>info_s = Some 0, info_e = None\<rparr>]\<rparr>"
  let ?w = "\<lparr>heap = [(NewSession (Some 1) ''s'')\<lparr>Values := Some [VStr ''user'' \<mapsto> VInt 7]\<rparr>],
             calls = [NewCall 1 ''s''], ext = ()\<rparr>"
  have a: "sessions ?reg ''s'' = Some \<lparr>info_s = Some 0, info_e = None\<rparr>" by simp
  have b: "info_s \<lparr>info_s = Some 0, info_e = None\<rparr> = Some 0" by simp
  have c: "0 < length (heap ?w)" by simp
  from Registry_Get_rebinds_store [OF a b c, of example_env "Some 2"]
  show ?thesis by (simp add: NewSession_def) blast
qed

subsection \<open>Saving all sessions\<close>















subsection \<open>The unexported fields\<close>






end
